theory Spec2Isabelle
  imports Main
begin

section \<open>Avatar Animator: the session state and the job orchestrator of App.tsx\<close>

text \<open>
  The component \<open>App\<close> keeps eight pieces of React state and one asynchronous function,
  \<open>generateAnimation\<close>, that submits a video generation request, polls the operation
  until the service reports it done, and downloads the result. The external world (the
  AI Studio host, the generation service, the network) is an oracle record \<open>env\<close>; every
  rejected promise and every \<open>throw\<close> is a value \<open>Inl err\<close>; the calls of the state
  setters and of the external services are logged, in order, next to the state.
\<close>

subsection \<open>JavaScript values\<close>

text \<open>
  A thrown value is an object whose \<open>message\<close> property is a string or is missing
  (the SDK, \<open>fetch\<close> and the source's own \<open>throw new Error(...)\<close> all throw such
  objects).
\<close>

datatype js_error = Error (message: "string option")

text \<open>Truthiness of a value of type \<open>string | null | undefined\<close>: the empty string is falsy.\<close>

definition truthy :: "string option \<Rightarrow> bool" where
  "truthy v = (case v of None \<Rightarrow> False | Some str \<Rightarrow> str \<noteq> [])"

text \<open>\<open>a || b\<close> where \<open>a\<close> is a string or missing and \<open>b\<close> is a string.\<close>

definition or_else :: "string option \<Rightarrow> string \<Rightarrow> string" where
  "or_else v d = (case v of None \<Rightarrow> d | Some str \<Rightarrow> if str = [] then d else str)"

text \<open>A template literal prints a missing value as \<open>undefined\<close>.\<close>

definition template_str :: "string option \<Rightarrow> string" where
  "template_str v = (case v of None \<Rightarrow> ''undefined'' | Some str \<Rightarrow> str)"

fun starts_with :: "string \<Rightarrow> string \<Rightarrow> bool" where
  "starts_with _ [] = True"
| "starts_with [] (_ # _) = False"
| "starts_with (c # cs) (d # ds) = (c = d \<and> starts_with cs ds)"

text \<open>\<open>String.prototype.includes\<close>: the second string occurs in the first, contiguously.\<close>

fun str_includes :: "string \<Rightarrow> string \<Rightarrow> bool" where
  "str_includes [] sub = (sub = [])"
| "str_includes (c # cs) sub = (starts_with (c # cs) sub \<or> str_includes cs sub)"

text \<open>\<open>String.prototype.split\<close> with a separator of one character: never an empty array.\<close>

fun js_split :: "char \<Rightarrow> string \<Rightarrow> string list" where
  "js_split sep [] = [[]]"
| "js_split sep (c # cs) =
     (if c = sep then [] # js_split sep cs
      else (case js_split sep cs of [] \<Rightarrow> [[c]] | p # ps \<Rightarrow> (c # p) # ps))"

text \<open>Array indexing: out of range reads \<open>undefined\<close>.\<close>

definition at_index :: "'a list \<Rightarrow> nat \<Rightarrow> 'a option" where
  "at_index xs i = (if i < length xs then Some (xs ! i) else None)"

subsection \<open>The generation service's data\<close>

datatype video = Video (uri: "string option")

datatype generated_video = GeneratedVideo (video: "video option")

datatype videos_response = VideosResponse (generatedVideos: "generated_video list option")

datatype operation = Operation (op_done: bool) (response: "videos_response option")

record video_request =
  req_model :: string
  req_prompt :: string
  req_imageBytes :: "string option"
  req_mimeType :: "string option"
  req_numberOfVideos :: nat
  req_resolution :: string
  req_aspectRatio :: string

datatype blob = Blob string

text \<open>A response of \<open>fetch\<close>; its \<open>blob()\<close> promise resolves or rejects.\<close>

datatype fetch_response = Response (blob_result: "js_error + blob")

text \<open>
  The external world. \<open>getVideosOperation env k\<close> is what the service answers to the
  poll that follows \<open>k\<close> earlier polls of the same run; \<open>newGoogleGenAI\<close> is the error
  the SDK's constructor throws, if it throws.
\<close>

record env =
  API_KEY :: "string option"
  hasSelectedApiKey :: "js_error + bool"
  openSelectKey :: "js_error option"
  newGoogleGenAI :: "js_error option"
  generateVideos :: "video_request \<Rightarrow> js_error + operation"
  getVideosOperation :: "nat \<Rightarrow> js_error + operation"
  fetch :: "string \<Rightarrow> js_error + fetch_response"
  createObjectURL :: "blob \<Rightarrow> string"

subsection \<open>The session state (the \<open>useState\<close> cells of \<open>App\<close>)\<close>

record session =
  hasApiKey :: bool
  selectedImage :: "string option"
  prompt :: string
  aspectRatio :: string
  isGenerating :: bool
  loadingStep :: string
  generatedVideoUrl :: "string option"
  error :: "string option"

definition initial_session :: session where
  "initial_session =
     \<lparr>hasApiKey = False, selectedImage = None, prompt = [], aspectRatio = ''9:16'',
      isGenerating = False, loadingStep = [], generatedVideoUrl = None, error = None\<rparr>"

text \<open>What the code does to the world, in the order it does it.\<close>

datatype effect =
    Set_hasApiKey bool
  | Set_isGenerating bool
  | Set_error "string option"
  | Set_loadingStep string
  | Set_generatedVideoUrl string
  | Console_error "string option" js_error
  | New_GoogleGenAI "string option"
  | Call_generateVideos video_request
  | Set_timeout nat
  | Call_getVideosOperation operation
  | Call_fetch string
  | Call_blob
  | Call_createObjectURL blob

type_synonym world = "session \<times> effect list"

definition emit :: "effect \<Rightarrow> world \<Rightarrow> world" where
  "emit e w = (fst w, snd w @ [e])"

definition setHasApiKey :: "bool \<Rightarrow> world \<Rightarrow> world" where
  "setHasApiKey v w = ((fst w)\<lparr>hasApiKey := v\<rparr>, snd w @ [Set_hasApiKey v])"

definition setIsGenerating :: "bool \<Rightarrow> world \<Rightarrow> world" where
  "setIsGenerating v w = ((fst w)\<lparr>isGenerating := v\<rparr>, snd w @ [Set_isGenerating v])"

definition setError :: "string option \<Rightarrow> world \<Rightarrow> world" where
  "setError v w = ((fst w)\<lparr>error := v\<rparr>, snd w @ [Set_error v])"

definition setLoadingStep :: "string \<Rightarrow> world \<Rightarrow> world" where
  "setLoadingStep v w = ((fst w)\<lparr>loadingStep := v\<rparr>, snd w @ [Set_loadingStep v])"

definition setGeneratedVideoUrl :: "string \<Rightarrow> world \<Rightarrow> world" where
  "setGeneratedVideoUrl v w =
     ((fst w)\<lparr>generatedVideoUrl := Some v\<rparr>, snd w @ [Set_generatedVideoUrl v])"

subsection \<open>The credential gate\<close>

text \<open>
  \<open>checkApiKey\<close>: the \<open>try\<close> covers the query and the setter, the \<open>catch\<close> only logs.
\<close>

definition checkApiKey :: "env \<Rightarrow> world \<Rightarrow> world" where
  "checkApiKey env w =
     (case hasSelectedApiKey env of
        Inr selected \<Rightarrow> setHasApiKey selected w
      | Inl e \<Rightarrow> emit (Console_error (Some ''API key check failed'') e) w)"

text \<open>\<open>useEffect(() => { checkApiKey(); }, [])\<close>: the check runs once, on the initial state.\<close>

definition on_mount :: "env \<Rightarrow> world" where
  "on_mount env = checkApiKey env (initial_session, [])"


text \<open>
  \<open>handleImageUpload\<close>: nothing happens when no file was chosen; otherwise the state
  takes \<open>reader.result\<close>, which is the data URL or, when reading failed, \<open>null\<close>.
\<close>

definition handleImageUpload :: "string option option \<Rightarrow> session \<Rightarrow> session" where
  "handleImageUpload file s =
     (case file of None \<Rightarrow> s | Some result \<Rightarrow> s\<lparr>selectedImage := result\<rparr>)"

text \<open>The component's top-level branch: the gate screen or the main screen.\<close>

datatype screen = Gate_screen | Main_screen

definition render_screen :: "session \<Rightarrow> screen" where
  "render_screen s = (if \<not> hasApiKey s then Gate_screen else Main_screen)"



subsection \<open>The job orchestrator\<close>

definition loadingMessages :: "string list" where
  "loadingMessages =
     [''Analyzing avatar features...'',
      ''Simulating physics and movement...'',
      ''Rendering commercial lighting...'',
      ''Finalizing high-quality motion...'',
      ''Almost there, polishing textures...'']"

text \<open>The request of \<open>ai.models.generateVideos\<close>, built from the values the closure sees.\<close>

definition build_request :: "session \<Rightarrow> string \<Rightarrow> video_request" where
  "build_request s img =
     \<lparr>req_model = ''veo-3.1-fast-generate-preview'',
      req_prompt = ''Animate this character: '' @
        or_else (Some (prompt s)) ''Natural movement in high quality commercial lighting'',
      req_imageBytes = at_index (js_split CHR '','' img) 1,
      req_mimeType = at_index (js_split CHR '':'' (hd (js_split CHR '';'' img))) 1,
      req_numberOfVideos = 1,
      req_resolution = ''720p'',
      req_aspectRatio = aspectRatio s\<rparr>"

text \<open>
  The \<open>while (!operation.done)\<close> loop. \<open>messageIndex\<close> is also the number of polls made
  so far, so it indexes the service's answers. The loop has no bound: not returning is
  the value \<open>None\<close>.
\<close>

partial_function (option) poll_loop ::
  "env \<Rightarrow> nat \<Rightarrow> operation \<Rightarrow> world \<Rightarrow> ((js_error + operation) \<times> world) option"
where
  "poll_loop env messageIndex operation w =
     (if op_done operation then Some (Inr operation, w)
      else
        (let w1 = setLoadingStep (loadingMessages ! (messageIndex mod length loadingMessages)) w;
             w2 = emit (Set_timeout 10000) w1;
             w3 = emit (Call_getVideosOperation operation) w2
         in case getVideosOperation env messageIndex of
              Inl e \<Rightarrow> Some (Inl e, w3)
            | Inr operation' \<Rightarrow> poll_loop env (messageIndex + 1) operation' w3))"

text \<open>\<open>operation.response?.generatedVideos?.[0]?.video?.uri\<close>\<close>

definition result_uri :: "operation \<Rightarrow> string option" where
  "result_uri operation =
     (case response operation of
        None \<Rightarrow> None
      | Some r \<Rightarrow>
          (case generatedVideos r of
             None \<Rightarrow> None
           | Some vs \<Rightarrow>
               (case at_index vs 0 of
                  None \<Rightarrow> None
                | Some gv \<Rightarrow> (case video gv of None \<Rightarrow> None | Some v \<Rightarrow> uri v))))"

text \<open>The \<open>if\<close> after the loop: download the asset, or throw.\<close>

definition completion :: "env \<Rightarrow> operation \<Rightarrow> world \<Rightarrow> (js_error + unit) \<times> world" where
  "completion env operation w =
     (if truthy (result_uri operation) then
        (let downloadLink = the (result_uri operation);
             w1 = setLoadingStep ''Downloading final commercial asset...'' w;
             url = downloadLink @ ''&key='' @ template_str (API_KEY env);
             w2 = emit (Call_fetch url) w1
         in case fetch env url of
              Inl e \<Rightarrow> (Inl e, w2)
            | Inr resp \<Rightarrow>
                (let w3 = emit Call_blob w2
                 in case blob_result resp of
                      Inl e \<Rightarrow> (Inl e, w3)
                    | Inr b \<Rightarrow>
                        (Inr (),
                         setGeneratedVideoUrl (createObjectURL env b)
                           (emit (Call_createObjectURL b) w3))))
      else (Inl (Error (Some ''No video was generated in the response.'')), w))"

text \<open>
  The body of the \<open>try\<close>, in three parts: up to the submission, the loop, and the
  completion. \<open>s0\<close> is the state the closure was created with: \<open>prompt\<close>,
  \<open>aspectRatio\<close> and \<open>selectedImage\<close> are read from it.
\<close>

definition submit :: "env \<Rightarrow> session \<Rightarrow> string \<Rightarrow> world \<Rightarrow> (js_error + operation) \<times> world" where
  "submit env s0 img w =
     (let w1 = emit (New_GoogleGenAI (API_KEY env)) w
      in case newGoogleGenAI env of
           Some e \<Rightarrow> (Inl e, w1)
         | None \<Rightarrow>
             (let w2 = setLoadingStep ''Uploading reference frame to Veo...'' w1;
                  w3 = emit (Call_generateVideos (build_request s0 img)) w2
              in (generateVideos env (build_request s0 img), w3)))"

definition try_body :: "env \<Rightarrow> session \<Rightarrow> string \<Rightarrow> world \<Rightarrow> ((js_error + unit) \<times> world) option" where
  "try_body env s0 img w =
     (case submit env s0 img w of
        (Inl e, w3) \<Rightarrow> Some (Inl e, w3)
      | (Inr operation, w3) \<Rightarrow>
          (case poll_loop env 0 operation w3 of
             None \<Rightarrow> None
           | Some (Inl e, w4) \<Rightarrow> Some (Inl e, w4)
           | Some (Inr operation', w4) \<Rightarrow> Some (completion env operation' w4)))"

text \<open>The \<open>catch\<close> block.\<close>

definition catch_block :: "js_error \<Rightarrow> world \<Rightarrow> world" where
  "catch_block err w =
     (let w1 = emit (Console_error None err) w
      in if (case message err of
               None \<Rightarrow> False
             | Some m \<Rightarrow> str_includes m ''Requested entity was not found'')
         then setError (Some ''API Key session expired or invalid. Please select a paid project key.'')
                (setHasApiKey False w1)
         else setError
                (Some (or_else (message err) ''An error occurred during generation. Please try again.''))
                w1)"

text \<open>The \<open>finally\<close> block.\<close>

definition finally_block :: "world \<Rightarrow> world" where
  "finally_block w = setLoadingStep [] (setIsGenerating False w)"

text \<open>The statements before the \<open>try\<close>, after the guard.\<close>

definition begin_run :: "world \<Rightarrow> world" where
  "begin_run w = setLoadingStep ''Initializing AI engine...'' (setError None (setIsGenerating True w))"

definition generateAnimation :: "env \<Rightarrow> world \<Rightarrow> world option" where
  "generateAnimation env w =
     (if \<not> truthy (selectedImage (fst w)) then Some w
      else
        (case try_body env (fst w) (the (selectedImage (fst w))) (begin_run w) of
           None \<Rightarrow> None
         | Some (Inl err, w') \<Rightarrow> Some (finally_block (catch_block err w'))
         | Some (Inr _, w') \<Rightarrow> Some (finally_block w')))"

subsection \<open>Notions used in the statements\<close>

text \<open>The loop's exit test on what a poll answers: a rejection or a finished operation.\<close>

definition settled :: "js_error + operation \<Rightarrow> bool" where
  "settled r = (case r of Inl e \<Rightarrow> True | Inr operation \<Rightarrow> op_done operation)"

text \<open>
  The world after \<open>n\<close> iterations of the loop that started with \<open>messageIndex = i\<close>,
  when \<open>ops k\<close> is the operation held at the start of iteration \<open>k\<close>.
\<close>

fun poll_steps :: "(nat \<Rightarrow> operation) \<Rightarrow> nat \<Rightarrow> nat \<Rightarrow> world \<Rightarrow> world" where
  "poll_steps ops i 0 w = w"
| "poll_steps ops i (Suc n) w =
     poll_steps ops (Suc i) n
       (emit (Call_getVideosOperation (ops i))
          (emit (Set_timeout 10000)
             (setLoadingStep (loadingMessages ! (i mod 5)) w)))"

definition poll_effects :: "(nat \<Rightarrow> operation) \<Rightarrow> nat \<Rightarrow> effect list" where
  "poll_effects ops k =
     [Set_loadingStep (loadingMessages ! (k mod 5)), Set_timeout 10000,
      Call_getVideosOperation (ops k)]"

text \<open>The effects of the \<open>try\<close> block before it sets the result: steps shown, timers and calls.\<close>

fun progress_effect :: "effect \<Rightarrow> bool" where
  "progress_effect (Set_loadingStep _) = True"
| "progress_effect (New_GoogleGenAI _) = True"
| "progress_effect (Call_generateVideos _) = True"
| "progress_effect (Set_timeout _) = True"
| "progress_effect (Call_getVideosOperation _) = True"
| "progress_effect (Call_fetch _) = True"
| "progress_effect Call_blob = True"
| "progress_effect (Call_createObjectURL _) = True"
| "progress_effect _ = False"

text \<open>
  \<open>only_progress w w'\<close>: from \<open>w\<close> to \<open>w'\<close> the state changed in \<open>loadingStep\<close> at most,
  and the log grew at its end, by such effects.
\<close>

definition only_progress :: "world \<Rightarrow> world \<Rightarrow> bool" where
  "only_progress w w' =
     ((\<exists>step. fst w' = (fst w)\<lparr>loadingStep := step\<rparr>) \<and>
      (\<exists>effects. snd w' = snd w @ effects \<and> list_all progress_effect effects))"






subsection \<open>Concrete inputs\<close>

text \<open>Concrete inputs for the examples.\<close>

definition demo_image :: string where
  "demo_image = ''data:image/png;base64,AAAA''"

definition demo_session :: session where
  "demo_session = initial_session\<lparr>hasApiKey := True, selectedImage := Some demo_image\<rparr>"

text \<open>The demo session with a prompt of three spaces.\<close>

definition blank_session :: session where
  "blank_session = demo_session\<lparr>prompt := ''   ''\<rparr>"


definition pending_operation :: operation where
  "pending_operation = Operation False None"

definition done_operation :: operation where
  "done_operation =
     Operation True (Some (VideosResponse (Some [GeneratedVideo (Some (Video (Some ''https://v/1?alt=media'')))])))"

definition empty_operation :: operation where
  "empty_operation = Operation True (Some (VideosResponse (Some [])))"

text \<open>A service that answers the submission and the first two polls with a pending operation, the third poll with the finished one.\<close>

definition demo_env :: env where
  "demo_env =
     \<lparr>API_KEY = Some ''K'', hasSelectedApiKey = Inr True, openSelectKey = None,
      newGoogleGenAI = None,
      generateVideos = (\<lambda>_. Inr pending_operation),
      getVideosOperation = (\<lambda>k. Inr (if k < 2 then pending_operation else done_operation)),
      fetch = (\<lambda>_. Inr (Response (Inr (Blob ''mp4'')))),
      createObjectURL = (\<lambda>_. ''blob:1'')\<rparr>"

text \<open>A service whose operation never finishes.\<close>

definition stalled_env :: env where
  "stalled_env = demo_env\<lparr>getVideosOperation := (\<lambda>k. Inr pending_operation)\<rparr>"





text \<open>A service whose operation finishes at once, with no video.\<close>

definition empty_env :: env where
  "empty_env = demo_env\<lparr>generateVideos := (\<lambda>_. Inr empty_operation)\<rparr>"

text \<open>A host whose credential query rejects.\<close>

definition broken_host_env :: env where
  "broken_host_env = demo_env\<lparr>hasSelectedApiKey := Inl (Error (Some ''aistudio is unavailable''))\<rparr>"


section \<open>Properties\<close>

subsection \<open>Strings\<close>



lemma js_split_nonempty: "js_split sep s \<noteq> []"
  by (induction s) (auto split: list.splits)

subsection \<open>The poll loop\<close>

lemma length_loadingMessages: "length loadingMessages = 5"
  by (simp add: loadingMessages_def)

lemma poll_loop_not_done_steps:
  assumes "\<forall>k<n. \<not> op_done (ops (i + k)) \<and> getVideosOperation env (i + k) = Inr (ops (Suc (i + k)))"
  shows "poll_loop env i (ops i) w = poll_loop env (i + n) (ops (i + n)) (poll_steps ops i n w)"
  using assms
proof (induction n arbitrary: i w)
  case 0
  then show ?case by simp
next
  case (Suc n)
  from Suc.prems have here: "\<not> op_done (ops i)" "getVideosOperation env i = Inr (ops (Suc i))"
    by (metis add.right_neutral zero_less_Suc)+
  have rest: "\<forall>k<n. \<not> op_done (ops (Suc i + k)) \<and> getVideosOperation env (Suc i + k) = Inr (ops (Suc (Suc i + k)))"
  proof (intro allI impI)
    fix k assume "k < n"
    then have "Suc k < Suc n" by simp
    with Suc.prems have "\<not> op_done (ops (i + Suc k)) \<and> getVideosOperation env (i + Suc k) = Inr (ops (Suc (i + Suc k)))"
      by blast
    then show "\<not> op_done (ops (Suc i + k)) \<and> getVideosOperation env (Suc i + k) = Inr (ops (Suc (Suc i + k)))"
      by simp
  qed
  have "poll_loop env i (ops i) w =
        poll_loop env (Suc i) (ops (Suc i))
          (emit (Call_getVideosOperation (ops i))
             (emit (Set_timeout 10000) (setLoadingStep (loadingMessages ! (i mod 5)) w)))"
    by (subst poll_loop.simps) (simp add: here length_loadingMessages)
  also have "\<dots> = poll_loop env (Suc i + n) (ops (Suc i + n))
          (poll_steps ops (Suc i) n (emit (Call_getVideosOperation (ops i))
             (emit (Set_timeout 10000) (setLoadingStep (loadingMessages ! (i mod 5)) w))))"
    by (rule Suc.IH [OF rest])
  finally show ?case by simp
qed

lemma snd_poll_steps:
  "snd (poll_steps ops i n w) = snd w @ concat (map (poll_effects ops) [i..<i + n])"
proof (induction n arbitrary: i w)
  case 0
  then show ?case by simp
next
  case (Suc n)
  have "[i..<i + Suc n] = i # [Suc i..<Suc i + n]"
    by (simp add: upt_conv_Cons)
  then show ?case
    by (simp add: Suc.IH emit_def setLoadingStep_def poll_effects_def)
qed

lemma fst_poll_steps:
  "fst (poll_steps ops i n w) =
     (if n = 0 then fst w else (fst w)\<lparr>loadingStep := loadingMessages ! ((i + n - 1) mod 5)\<rparr>)"
proof (induction n arbitrary: i w)
  case 0
  then show ?case by simp
next
  case (Suc n)
  then show ?case
    by (simp add: emit_def setLoadingStep_def)
qed

lemma poll_loop_done: "op_done operation \<Longrightarrow> poll_loop env i operation w = Some (Inr operation, w)"
  by (subst poll_loop.simps) simp

lemma poll_loop_rejected:
  "\<not> op_done operation \<Longrightarrow> getVideosOperation env i = Inl e \<Longrightarrow>
   poll_loop env i operation w =
     Some (Inl e, emit (Call_getVideosOperation operation)
        (emit (Set_timeout 10000) (setLoadingStep (loadingMessages ! (i mod 5)) w)))"
  by (subst poll_loop.simps) (simp add: length_loadingMessages)

lemma upt_0_3: "[0..<3] = [0, 1, 2::nat]"
  by (simp add: upt_rec)

text \<open>
  C1. Let \<open>ops 0\<close> be the operation the submission returns and \<open>ops (Suc k)\<close> the
  answer to poll \<open>k\<close>. When \<open>ops 0\<close>, ..., \<open>ops (n - 1)\<close> report not done (for any
  \<open>n\<close>, zero included), \<open>ops n\<close> reports done and carries a non-empty result URI, and the
  fetch of that URI delivers a blob, the run returns and its log is exactly: the start
  of the run and the submission; then \<open>n\<close> times a status phrase, the \<open>k\<close>-th being
  entry \<open>k mod 5\<close> of the fixed list of five, followed by the timer of 10000 ms and the
  re-fetch with the operation held; then the downloading step, the fetch of the URI
  (with the key appended), and the setting of the video URL made from the fetched blob.
  The state ends with that URL, no error message, and the job inactive.
\<close>

theorem poll_then_download:
  assumes img: "selectedImage (fst w) = Some img" "img \<noteq> []"
    and client: "newGoogleGenAI env = None"
    and submitted: "generateVideos env (build_request (fst w) img) = Inr (ops 0)"
    and pending: "\<forall>k<n. \<not> op_done (ops k) \<and> getVideosOperation env k = Inr (ops (Suc k))"
    and finished: "op_done (ops n)"
    and located: "result_uri (ops n) = Some link" "link \<noteq> []"
    and fetched: "fetch env (link @ ''&key='' @ template_str (API_KEY env)) = Inr (Response (Inr b))"
  shows "generateAnimation env w =
     Some ((fst w)\<lparr>isGenerating := False, error := None, loadingStep := [],
                   generatedVideoUrl := Some (createObjectURL env b)\<rparr>,
           snd w @
           [Set_isGenerating True, Set_error None, Set_loadingStep ''Initializing AI engine...'',
            New_GoogleGenAI (API_KEY env), Set_loadingStep ''Uploading reference frame to Veo...'',
            Call_generateVideos (build_request (fst w) img)] @
           concat (map (\<lambda>k. [Set_loadingStep (loadingMessages ! (k mod 5)), Set_timeout 10000,
                              Call_getVideosOperation (ops k)]) [0..<n]) @
           [Set_loadingStep ''Downloading final commercial asset...'',
            Call_fetch (link @ ''&key='' @ template_str (API_KEY env)), Call_blob,
            Call_createObjectURL b, Set_generatedVideoUrl (createObjectURL env b),
            Set_isGenerating False, Set_loadingStep []])"
proof -
  define w3 where "w3 = snd (submit env (fst w) img (begin_run w))"
  have sub: "submit env (fst w) img (begin_run w) = (Inr (ops 0), w3)"
    by (simp add: w3_def submit_def client submitted Let_def)
  have "poll_loop env 0 (ops 0) w3 = poll_loop env (0 + n) (ops (0 + n)) (poll_steps ops 0 n w3)"
    using pending by (intro poll_loop_not_done_steps [where i = 0 and n = n and ops = ops and env = env]) simp
  then have loop: "poll_loop env 0 (ops 0) w3 = Some (Inr (ops n), poll_steps ops 0 n w3)"
    by (simp add: poll_loop_done finished)
  have body: "try_body env (fst w) img (begin_run w) = Some (completion env (ops n) (poll_steps ops 0 n w3))"
    by (simp add: try_body_def sub loop)
  have w3_fst: "fst w3 = (fst w)\<lparr>isGenerating := True, error := None,
      loadingStep := ''Uploading reference frame to Veo...''\<rparr>"
    by (simp add: w3_def submit_def client begin_run_def emit_def setLoadingStep_def setError_def
        setIsGenerating_def Let_def)
  have w3_snd: "snd w3 = snd w @ [Set_isGenerating True, Set_error None,
      Set_loadingStep ''Initializing AI engine...'', New_GoogleGenAI (API_KEY env),
      Set_loadingStep ''Uploading reference frame to Veo...'',
      Call_generateVideos (build_request (fst w) img)]"
    by (simp add: w3_def submit_def client begin_run_def emit_def setLoadingStep_def setError_def
        setIsGenerating_def Let_def)
  have eff: "poll_effects ops = (\<lambda>k. [Set_loadingStep (loadingMessages ! (k mod 5)), Set_timeout 10000,
                              Call_getVideosOperation (ops k)])"
    by (rule ext) (simp add: poll_effects_def)
  have compl: "completion env (ops n) (poll_steps ops 0 n w3) =
      (Inr (), setGeneratedVideoUrl (createObjectURL env b)
         (emit (Call_createObjectURL b) (emit Call_blob
            (emit (Call_fetch (link @ ''&key='' @ template_str (API_KEY env)))
               (setLoadingStep ''Downloading final commercial asset...'' (poll_steps ops 0 n w3))))))"
    using fetched by (simp add: completion_def located truthy_def Let_def)
  have "generateAnimation env w = Some (finally_block (snd (completion env (ops n) (poll_steps ops 0 n w3))))"
    by (simp add: generateAnimation_def img truthy_def body compl)
  also have "\<dots> = Some ((fst w)\<lparr>isGenerating := False, error := None, loadingStep := [],
                   generatedVideoUrl := Some (createObjectURL env b)\<rparr>,
           snd w @
           [Set_isGenerating True, Set_error None, Set_loadingStep ''Initializing AI engine...'',
            New_GoogleGenAI (API_KEY env), Set_loadingStep ''Uploading reference frame to Veo...'',
            Call_generateVideos (build_request (fst w) img)] @
           concat (map (\<lambda>k. [Set_loadingStep (loadingMessages ! (k mod 5)), Set_timeout 10000,
                              Call_getVideosOperation (ops k)]) [0..<n]) @
           [Set_loadingStep ''Downloading final commercial asset...'',
            Call_fetch (link @ ''&key='' @ template_str (API_KEY env)), Call_blob,
            Call_createObjectURL b, Set_generatedVideoUrl (createObjectURL env b),
            Set_isGenerating False, Set_loadingStep []])"
    unfolding compl
    by (simp add: finally_block_def setGeneratedVideoUrl_def emit_def setLoadingStep_def
        setIsGenerating_def snd_poll_steps fst_poll_steps w3_fst w3_snd eff)
  finally show ?thesis .
qed

theorem poll_then_download_witness:
  "generateAnimation demo_env (demo_session, []) =
     Some (demo_session\<lparr>generatedVideoUrl := Some ''blob:1''\<rparr>,
       [Set_isGenerating True, Set_error None, Set_loadingStep ''Initializing AI engine...'',
        New_GoogleGenAI (Some ''K''), Set_loadingStep ''Uploading reference frame to Veo...'',
        Call_generateVideos (build_request demo_session demo_image),
        Set_loadingStep ''Analyzing avatar features...'', Set_timeout 10000,
        Call_getVideosOperation pending_operation,
        Set_loadingStep ''Simulating physics and movement...'', Set_timeout 10000,
        Call_getVideosOperation pending_operation,
        Set_loadingStep ''Rendering commercial lighting...'', Set_timeout 10000,
        Call_getVideosOperation pending_operation,
        Set_loadingStep ''Downloading final commercial asset...'',
        Call_fetch ''https://v/1?alt=media&key=K'', Call_blob,
        Call_createObjectURL (Blob ''mp4''), Set_generatedVideoUrl ''blob:1'',
        Set_isGenerating False, Set_loadingStep []])"
  using poll_then_download [of "(demo_session, [])" demo_image demo_env
      "\<lambda>k. if k < 3 then pending_operation else done_operation" 3 "''https://v/1?alt=media''" "Blob ''mp4''"]
  by (simp add: demo_session_def demo_env_def initial_session_def demo_image_def pending_operation_def
      done_operation_def result_uri_def at_index_def template_str_def upt_0_3 loadingMessages_def)

subsection \<open>Termination of the poll loop\<close>

lemma poll_loop_step:
  "\<not> op_done operation \<Longrightarrow> getVideosOperation env i = Inr operation' \<Longrightarrow>
   poll_loop env i operation w =
     poll_loop env (Suc i) operation'
       (emit (Call_getVideosOperation operation)
          (emit (Set_timeout 10000) (setLoadingStep (loadingMessages ! (i mod 5)) w)))"
  by (subst poll_loop.simps) (simp add: length_loadingMessages)

lemma poll_loop_returns_if_settled:
  "settled (getVideosOperation env (i + k)) \<Longrightarrow> poll_loop env i operation w \<noteq> None"
proof (induction k arbitrary: i operation w)
  case 0
  show ?case
  proof (cases "op_done operation")
    case True
    then show ?thesis by (simp add: poll_loop_done)
  next
    case False
    show ?thesis
    proof (cases "getVideosOperation env i")
      case (Inl e)
      with False show ?thesis by (simp add: poll_loop_rejected)
    next
      case (Inr operation')
      with 0 have "op_done operation'" by (simp add: settled_def)
      with False Inr show ?thesis by (simp add: poll_loop_step poll_loop_done)
    qed
  qed
next
  case (Suc k)
  show ?case
  proof (cases "op_done operation")
    case True
    then show ?thesis by (simp add: poll_loop_done)
  next
    case False
    show ?thesis
    proof (cases "getVideosOperation env i")
      case (Inl e)
      with False show ?thesis by (simp add: poll_loop_rejected)
    next
      case (Inr operation')
      from Suc.prems have "settled (getVideosOperation env (Suc i + k))" by simp
      then have "poll_loop env (Suc i) operation'
         (emit (Call_getVideosOperation operation)
            (emit (Set_timeout 10000) (setLoadingStep (loadingMessages ! (i mod 5)) w))) \<noteq> None"
        by (rule Suc.IH)
      with False Inr show ?thesis by (simp add: poll_loop_step)
    qed
  qed
qed

lemma poll_loop_settled_if_returns:
  assumes "poll_loop env i operation w = Some y"
  shows "op_done operation \<or> (\<exists>k. settled (getVideosOperation env (i + k)))"
proof (rule poll_loop.raw_induct
    [where P = "\<lambda>env i operation w y. op_done operation \<or> (\<exists>k. settled (getVideosOperation env (i + k)))",
     OF _ assms])
  fix poll_loop' :: "env \<Rightarrow> nat \<Rightarrow> operation \<Rightarrow> world \<Rightarrow> ((js_error + operation) \<times> world) option"
  fix env i operation w y
  assume IH: "\<And>env i operation w y. poll_loop' env i operation w = Some y \<Longrightarrow>
      op_done operation \<or> (\<exists>k. settled (getVideosOperation env (i + k)))"
  assume body: "(if op_done operation then Some (Inr operation, w)
      else let w1 = setLoadingStep (loadingMessages ! (i mod length loadingMessages)) w;
               w2 = emit (Set_timeout 10000) w1;
               w3 = emit (Call_getVideosOperation operation) w2
           in case getVideosOperation env i of
                Inl e \<Rightarrow> Some (Inl e, w3)
              | Inr operation' \<Rightarrow> poll_loop' env (i + 1) operation' w3) = Some y"
  show "op_done operation \<or> (\<exists>k. settled (getVideosOperation env (i + k)))"
  proof (cases "op_done operation")
    case True
    then show ?thesis by simp
  next
    case False
    show ?thesis
    proof (cases "getVideosOperation env i")
      case (Inl e)
      then have "settled (getVideosOperation env (i + 0))" by (simp add: settled_def)
      then show ?thesis by blast
    next
      case (Inr operation')
      with False body obtain w' where "poll_loop' env (i + 1) operation' w' = Some y"
        by (auto simp: Let_def)
      then have "op_done operation' \<or> (\<exists>k. settled (getVideosOperation env (i + 1 + k)))"
        by (rule IH)
      then show ?thesis
      proof
        assume "op_done operation'"
        with Inr have "settled (getVideosOperation env (i + 0))" by (simp add: settled_def)
        then show ?thesis by blast
      next
        assume "\<exists>k. settled (getVideosOperation env (i + 1 + k))"
        then obtain k where "settled (getVideosOperation env (i + 1 + k))" ..
        then have "settled (getVideosOperation env (i + Suc k))" by simp
        then show ?thesis by blast
      qed
    qed
  qed
qed

text \<open>
  C2. The loop has no bound on its iterations and no timeout. Started with
  \<open>messageIndex = i\<close>, it returns exactly when the operation it holds is done or some
  later poll is answered with a finished operation or rejected; when the operation is
  not done and every poll is answered with an unfinished operation, it never returns.
\<close>

theorem poll_loop_terminates_iff:
  "(poll_loop env i operation w \<noteq> None \<longleftrightarrow>
      op_done operation \<or> (\<exists>k. settled (getVideosOperation env (i + k)))) \<and>
   (\<not> op_done operation \<and> (\<forall>k. \<not> settled (getVideosOperation env (i + k))) \<longrightarrow>
      poll_loop env i operation w = None)"
proof -
  have iff: "poll_loop env i operation w \<noteq> None \<longleftrightarrow>
      op_done operation \<or> (\<exists>k. settled (getVideosOperation env (i + k)))"
  proof
    assume "poll_loop env i operation w \<noteq> None"
    then obtain y where "poll_loop env i operation w = Some y" by blast
    then show "op_done operation \<or> (\<exists>k. settled (getVideosOperation env (i + k)))"
      by (rule poll_loop_settled_if_returns)
  next
    assume "op_done operation \<or> (\<exists>k. settled (getVideosOperation env (i + k)))"
    then show "poll_loop env i operation w \<noteq> None"
    proof
      assume "op_done operation"
      then show ?thesis by (simp add: poll_loop_done)
    next
      assume "\<exists>k. settled (getVideosOperation env (i + k))"
      then obtain k where "settled (getVideosOperation env (i + k))" ..
      then show ?thesis by (rule poll_loop_returns_if_settled)
    qed
  qed
  then show ?thesis by blast
qed

theorem poll_loop_terminates_iff_witness:
  "poll_loop stalled_env 0 pending_operation (demo_session, []) = None \<and>
   poll_loop demo_env 0 pending_operation (demo_session, []) \<noteq> None"
proof -
  have "settled (getVideosOperation demo_env (0 + 2))"
    by (simp add: settled_def demo_env_def done_operation_def)
  then have "\<exists>k. settled (getVideosOperation demo_env (0 + k))" ..
  moreover have "\<not> op_done pending_operation \<and> (\<forall>k. \<not> settled (getVideosOperation stalled_env (0 + k)))"
    by (simp add: settled_def stalled_env_def pending_operation_def)
  ultimately show ?thesis
    using poll_loop_terminates_iff [of stalled_env 0 pending_operation "(demo_session, [])"]
      poll_loop_terminates_iff [of demo_env 0 pending_operation "(demo_session, [])"]
    by blast
qed

subsection \<open>What the try block leaves untouched\<close>

lemma only_progress_refl: "only_progress w w"
proof -
  have "fst w = (fst w)\<lparr>loadingStep := loadingStep (fst w)\<rparr>" by simp
  moreover have "snd w = snd w @ [] \<and> list_all progress_effect []" by simp
  ultimately show ?thesis unfolding only_progress_def by blast
qed

lemma only_progress_trans:
  assumes "only_progress w1 w2" and "only_progress w2 w3"
  shows "only_progress w1 w3"
proof -
  from assms obtain s1 e1 s2 e2 where
    a: "fst w2 = (fst w1)\<lparr>loadingStep := s1\<rparr>" "snd w2 = snd w1 @ e1" "list_all progress_effect e1" and
    b: "fst w3 = (fst w2)\<lparr>loadingStep := s2\<rparr>" "snd w3 = snd w2 @ e2" "list_all progress_effect e2"
    unfolding only_progress_def by blast
  have "fst w3 = (fst w1)\<lparr>loadingStep := s2\<rparr>" using a b by simp
  moreover have "snd w3 = snd w1 @ (e1 @ e2) \<and> list_all progress_effect (e1 @ e2)" using a b by simp
  ultimately show ?thesis unfolding only_progress_def by blast
qed

lemma only_progress_emit:
  assumes "progress_effect e"
  shows "only_progress w (emit e w)"
proof -
  have "fst (emit e w) = (fst w)\<lparr>loadingStep := loadingStep (fst w)\<rparr>" by (simp add: emit_def)
  moreover have "snd (emit e w) = snd w @ [e] \<and> list_all progress_effect [e]"
    using assms by (simp add: emit_def)
  ultimately show ?thesis unfolding only_progress_def by blast
qed

lemma only_progress_setLoadingStep: "only_progress w (setLoadingStep v w)"
proof -
  have "fst (setLoadingStep v w) = (fst w)\<lparr>loadingStep := v\<rparr>" by (simp add: setLoadingStep_def)
  moreover have "snd (setLoadingStep v w) = snd w @ [Set_loadingStep v] \<and>
      list_all progress_effect [Set_loadingStep v]"
    by (simp add: setLoadingStep_def)
  ultimately show ?thesis unfolding only_progress_def by blast
qed

lemma only_progress_iteration:
  assumes "progress_effect e1" and "progress_effect e2"
  shows "only_progress w (emit e2 (emit e1 (setLoadingStep v w)))"
  using assms
  by (blast intro: only_progress_trans only_progress_emit only_progress_setLoadingStep)

lemma poll_loop_only_progress:
  assumes "poll_loop env i operation w = Some y"
  shows "only_progress w (snd y)"
proof (rule poll_loop.raw_induct [where P = "\<lambda>env i operation w y. only_progress w (snd y)", OF _ assms])
  fix poll_loop' :: "env \<Rightarrow> nat \<Rightarrow> operation \<Rightarrow> world \<Rightarrow> ((js_error + operation) \<times> world) option"
  fix env i operation w y
  assume IH: "\<And>env i operation w y. poll_loop' env i operation w = Some y \<Longrightarrow> only_progress w (snd y)"
  assume body: "(if op_done operation then Some (Inr operation, w)
      else let w1 = setLoadingStep (loadingMessages ! (i mod length loadingMessages)) w;
               w2 = emit (Set_timeout 10000) w1;
               w3 = emit (Call_getVideosOperation operation) w2
           in case getVideosOperation env i of
                Inl e \<Rightarrow> Some (Inl e, w3)
              | Inr operation' \<Rightarrow> poll_loop' env (i + 1) operation' w3) = Some y"
  let ?w3 = "emit (Call_getVideosOperation operation)
      (emit (Set_timeout 10000) (setLoadingStep (loadingMessages ! (i mod length loadingMessages)) w))"
  have step: "only_progress w ?w3" by (rule only_progress_iteration) simp_all
  show "only_progress w (snd y)"
  proof (cases "op_done operation")
    case True
    with body have "snd y = w" by auto
    then show ?thesis by (simp add: only_progress_refl)
  next
    case False
    show ?thesis
    proof (cases "getVideosOperation env i")
      case (Inl e)
      with False body have "snd y = ?w3" by (auto simp: Let_def)
      with step show ?thesis by simp
    next
      case (Inr operation')
      with False body have "poll_loop' env (i + 1) operation' ?w3 = Some y"
        by (simp add: Let_def)
      then have "only_progress ?w3 (snd y)" by (rule IH)
      with step show ?thesis by (rule only_progress_trans)
    qed
  qed
qed


lemma completion_failure_only_progress:
  assumes "completion env operation w = (Inl err, w')"
  shows "only_progress w w'"
proof (cases "truthy (result_uri operation)")
  case False
  with assms have "w' = w" by (simp add: completion_def)
  then show ?thesis by (simp add: only_progress_refl)
next
  case True
  let ?url = "the (result_uri operation) @ ''&key='' @ template_str (API_KEY env)"
  let ?w2 = "emit (Call_fetch ?url) (setLoadingStep ''Downloading final commercial asset...'' w)"
  have p2: "only_progress w ?w2"
    by (intro only_progress_trans [OF only_progress_setLoadingStep only_progress_emit]) simp
  show ?thesis
  proof (cases "fetch env ?url")
    case (Inl e)
    with True assms have "w' = ?w2" by (simp add: completion_def Let_def)
    with p2 show ?thesis by simp
  next
    case (Inr resp)
    show ?thesis
    proof (cases "blob_result resp")
      case (Inl e)
      with True Inr assms have "w' = emit Call_blob ?w2" by (simp add: completion_def Let_def)
      moreover have "only_progress ?w2 (emit Call_blob ?w2)" by (rule only_progress_emit) simp
      ultimately show ?thesis using p2 by (blast intro: only_progress_trans)
    next
      case (Inr b)
      with True \<open>fetch env ?url = Inr resp\<close> assms show ?thesis by (simp add: completion_def Let_def)
    qed
  qed
qed

lemma completion_success:
  assumes "completion env operation w = (Inr u, w')"
  shows "\<exists>b w3. only_progress w w3 \<and> w' = setGeneratedVideoUrl (createObjectURL env b) w3"
proof (cases "truthy (result_uri operation)")
  case False
  with assms show ?thesis by (simp add: completion_def)
next
  case True
  let ?url = "the (result_uri operation) @ ''&key='' @ template_str (API_KEY env)"
  let ?w2 = "emit (Call_fetch ?url) (setLoadingStep ''Downloading final commercial asset...'' w)"
  have p2: "only_progress w ?w2"
    by (intro only_progress_trans [OF only_progress_setLoadingStep only_progress_emit]) simp
  show ?thesis
  proof (cases "fetch env ?url")
    case (Inl e)
    with True assms show ?thesis by (simp add: completion_def Let_def)
  next
    case (Inr resp)
    show ?thesis
    proof (cases "blob_result resp")
      case (Inl e)
      with True Inr assms show ?thesis by (simp add: completion_def Let_def)
    next
      case (Inr b)
      with True \<open>fetch env ?url = Inr resp\<close> assms
      have "w' = setGeneratedVideoUrl (createObjectURL env b) (emit (Call_createObjectURL b) (emit Call_blob ?w2))"
        by (simp add: completion_def Let_def)
      moreover have "only_progress ?w2 (emit (Call_createObjectURL b) (emit Call_blob ?w2))"
        by (intro only_progress_trans [OF only_progress_emit only_progress_emit]) simp_all
      then have "only_progress w (emit (Call_createObjectURL b) (emit Call_blob ?w2))"
        using p2 by (blast intro: only_progress_trans)
      ultimately show ?thesis by blast
    qed
  qed
qed



subsection \<open>Failures\<close>

lemma poll_loop_reaches:
  assumes "\<forall>k<n. \<not> op_done (ops k) \<and> getVideosOperation env k = Inr (ops (Suc k))"
  shows "poll_loop env 0 (ops 0) w = poll_loop env n (ops n) (poll_steps ops 0 n w)"
proof -
  have "poll_loop env 0 (ops 0) w = poll_loop env (0 + n) (ops (0 + n)) (poll_steps ops 0 n w)"
    using assms
    by (intro poll_loop_not_done_steps [where i = 0 and n = n and ops = ops and env = env]) simp
  then show ?thesis by simp
qed


lemma try_body_polled:
  assumes client: "newGoogleGenAI env = None"
    and submitted: "generateVideos env (build_request s0 img) = Inr (ops 0)"
    and pending: "\<forall>k<n. \<not> op_done (ops k) \<and> getVideosOperation env k = Inr (ops (Suc k))"
  shows "try_body env s0 img w =
     (case poll_loop env n (ops n) (poll_steps ops 0 n (snd (submit env s0 img w))) of
        None \<Rightarrow> None
      | Some (Inl e, w4) \<Rightarrow> Some (Inl e, w4)
      | Some (Inr operation', w4) \<Rightarrow> Some (completion env operation' w4))"
proof -
  define w3 where "w3 = snd (submit env s0 img w)"
  have sub: "submit env s0 img w = (Inr (ops 0), w3)"
    by (simp add: w3_def submit_def client submitted Let_def)
  have loop: "poll_loop env 0 (ops 0) w3 = poll_loop env n (ops n) (poll_steps ops 0 n w3)"
    using pending by (rule poll_loop_reaches)
  have "try_body env s0 img w =
     (case poll_loop env n (ops n) (poll_steps ops 0 n w3) of
        None \<Rightarrow> None
      | Some (Inl e, w4) \<Rightarrow> Some (Inl e, w4)
      | Some (Inr operation', w4) \<Rightarrow> Some (completion env operation' w4))"
    by (simp add: try_body_def sub loop)
  then show ?thesis by (simp only: w3_def)
qed







text \<open>
  C4. When the operation is reported done (at the submission or after \<open>n\<close> pending
  status reports) and \<open>operation.response?.generatedVideos?.[0]?.video?.uri\<close> is missing
  or empty, nothing is downloaded: the run ends with the job inactive and the error
  \<open>No video was generated in the response.\<close>; the credential flag, the earlier result
  asset and the rest of the state are as before.
\<close>

theorem no_video_generated:
  assumes img: "selectedImage (fst w) = Some img" "img \<noteq> []"
    and client: "newGoogleGenAI env = None"
    and submitted: "generateVideos env (build_request (fst w) img) = Inr (ops 0)"
    and pending: "\<forall>k<n. \<not> op_done (ops k) \<and> getVideosOperation env k = Inr (ops (Suc k))"
    and finished: "op_done (ops n)"
    and no_result: "\<not> truthy (result_uri (ops n))"
  shows "generateAnimation env w =
     Some ((fst w)\<lparr>isGenerating := False, loadingStep := [],
                   error := Some ''No video was generated in the response.''\<rparr>,
           snd w @
           [Set_isGenerating True, Set_error None, Set_loadingStep ''Initializing AI engine...'',
            New_GoogleGenAI (API_KEY env), Set_loadingStep ''Uploading reference frame to Veo...'',
            Call_generateVideos (build_request (fst w) img)] @
           concat (map (\<lambda>k. [Set_loadingStep (loadingMessages ! (k mod 5)), Set_timeout 10000,
                              Call_getVideosOperation (ops k)]) [0..<n]) @
           [Console_error None (Error (Some ''No video was generated in the response.'')),
            Set_error (Some ''No video was generated in the response.''),
            Set_isGenerating False, Set_loadingStep []])"
proof -
  define w3 where "w3 = snd (submit env (fst w) img (begin_run w))"
  have w3_fst: "fst w3 = (fst w)\<lparr>isGenerating := True, error := None,
      loadingStep := ''Uploading reference frame to Veo...''\<rparr>"
    by (simp add: w3_def submit_def client begin_run_def emit_def setLoadingStep_def setError_def
        setIsGenerating_def Let_def)
  have w3_snd: "snd w3 = snd w @ [Set_isGenerating True, Set_error None,
      Set_loadingStep ''Initializing AI engine...'', New_GoogleGenAI (API_KEY env),
      Set_loadingStep ''Uploading reference frame to Veo...'',
      Call_generateVideos (build_request (fst w) img)]"
    by (simp add: w3_def submit_def client begin_run_def emit_def setLoadingStep_def setError_def
        setIsGenerating_def Let_def)
  have eff: "poll_effects ops = (\<lambda>k. [Set_loadingStep (loadingMessages ! (k mod 5)), Set_timeout 10000,
                              Call_getVideosOperation (ops k)])"
    by (rule ext) (simp add: poll_effects_def)
  have "try_body env (fst w) img (begin_run w) =
      Some (Inl (Error (Some ''No video was generated in the response.'')), poll_steps ops 0 n w3)"
    by (simp add: try_body_polled [OF client submitted pending] poll_loop_done [OF finished]
        completion_def no_result w3_def)
  then have "generateAnimation env w =
      Some (finally_block (catch_block (Error (Some ''No video was generated in the response.''))
        (poll_steps ops 0 n w3)))"
    by (simp add: generateAnimation_def img truthy_def)
  also have "\<dots> = Some ((fst w)\<lparr>isGenerating := False, loadingStep := [],
                   error := Some ''No video was generated in the response.''\<rparr>,
           snd w @
           [Set_isGenerating True, Set_error None, Set_loadingStep ''Initializing AI engine...'',
            New_GoogleGenAI (API_KEY env), Set_loadingStep ''Uploading reference frame to Veo...'',
            Call_generateVideos (build_request (fst w) img)] @
           concat (map (\<lambda>k. [Set_loadingStep (loadingMessages ! (k mod 5)), Set_timeout 10000,
                              Call_getVideosOperation (ops k)]) [0..<n]) @
           [Console_error None (Error (Some ''No video was generated in the response.'')),
            Set_error (Some ''No video was generated in the response.''),
            Set_isGenerating False, Set_loadingStep []])"
    by (simp add: finally_block_def catch_block_def or_else_def emit_def setLoadingStep_def
        setIsGenerating_def setError_def snd_poll_steps fst_poll_steps w3_fst w3_snd eff Let_def)
  finally show ?thesis .
qed

theorem no_video_generated_witness:
  "generateAnimation empty_env (demo_session, []) =
     Some (demo_session\<lparr>error := Some ''No video was generated in the response.''\<rparr>,
       [Set_isGenerating True, Set_error None, Set_loadingStep ''Initializing AI engine...'',
        New_GoogleGenAI (Some ''K''), Set_loadingStep ''Uploading reference frame to Veo...'',
        Call_generateVideos (build_request demo_session demo_image),
        Console_error None (Error (Some ''No video was generated in the response.'')),
        Set_error (Some ''No video was generated in the response.''),
        Set_isGenerating False, Set_loadingStep []])"
  using no_video_generated [of "(demo_session, [])" demo_image empty_env "\<lambda>_. empty_operation" 0]
  by (simp add: demo_session_def empty_env_def demo_env_def initial_session_def demo_image_def
      empty_operation_def result_uri_def at_index_def truthy_def)

subsection \<open>The log of a run\<close>

lemma completion_log: "\<exists>effects. snd (snd (completion env operation w)) = snd w @ effects"
proof -
  obtain r w' where Pair: "completion env operation w = (r, w')"
    by (metis surj_pair)
  show ?thesis
  proof (cases r)
    case (Inl err)
    with Pair have "only_progress w w'" by (simp add: completion_failure_only_progress)
    with Pair show ?thesis by (auto simp: only_progress_def)
  next
    case (Inr u)
    with Pair obtain b w3 where "only_progress w w3" "w' = setGeneratedVideoUrl (createObjectURL env b) w3"
      using completion_success by blast
    with Pair show ?thesis by (auto simp: only_progress_def setGeneratedVideoUrl_def)
  qed
qed

lemma try_body_log:
  assumes "try_body env s0 img w = Some (r, w')"
  shows "\<exists>effects. snd w' = snd (snd (submit env s0 img w)) @ effects"
proof -
  obtain r3 w3 where sub: "submit env s0 img w = (r3, w3)"
    by (metis surj_pair)
  show ?thesis
  proof (cases r3)
    case (Inl e)
    with sub assms show ?thesis by (simp add: try_body_def)
  next
    case (Inr operation)
    with sub assms obtain r4 w4 where loop: "poll_loop env 0 operation w3 = Some (r4, w4)"
      by (auto simp: try_body_def split: option.splits)
    then have "only_progress w3 w4"
      using poll_loop_only_progress by fastforce
    then obtain e4 where e4: "snd w4 = snd w3 @ e4"
      by (auto simp: only_progress_def)
    show ?thesis
    proof (cases r4)
      case (Inl e)
      with sub Inr loop assms have "w' = w4" by (simp add: try_body_def)
      with e4 sub show ?thesis by simp
    next
      case (Inr operation')
      with sub \<open>r3 = Inr operation\<close> loop assms have "w' = snd (completion env operation' w4)"
        by (auto simp: try_body_def)
      moreover obtain e5 where "snd (snd (completion env operation' w4)) = snd w4 @ e5"
        using completion_log by blast
      ultimately show ?thesis using e4 sub by simp
    qed
  qed
qed

lemma catch_block_log: "\<exists>effects. snd (catch_block err w) = snd w @ effects"
  by (simp add: catch_block_def Let_def setError_def setHasApiKey_def emit_def)

lemma finally_block_log: "\<exists>effects. snd (finally_block w) = snd w @ effects"
  by (simp add: finally_block_def setIsGenerating_def setLoadingStep_def)

lemma run_log:
  assumes img: "selectedImage (fst w) = Some img" "img \<noteq> []"
    and run: "generateAnimation env w = Some w'"
  shows "\<exists>effects. snd w' = snd (snd (submit env (fst w) img (begin_run w))) @ effects"
proof -
  from img run obtain r w2 where body: "try_body env (fst w) img (begin_run w) = Some (r, w2)"
    by (auto simp: generateAnimation_def truthy_def split: option.splits)
  then obtain e2 where e2: "snd w2 = snd (snd (submit env (fst w) img (begin_run w))) @ e2"
    using try_body_log by blast
  show ?thesis
  proof (cases r)
    case (Inl err)
    with img run body have "w' = finally_block (catch_block err w2)"
      by (simp add: generateAnimation_def truthy_def)
    moreover obtain e3 where "snd (catch_block err w2) = snd w2 @ e3"
      using catch_block_log by blast
    moreover obtain e4 where "snd (finally_block (catch_block err w2)) = snd (catch_block err w2) @ e4"
      using finally_block_log by blast
    ultimately show ?thesis using e2 by simp
  next
    case (Inr u)
    with img run body have "w' = finally_block w2"
      by (simp add: generateAnimation_def truthy_def)
    moreover obtain e4 where "snd (finally_block w2) = snd w2 @ e4"
      using finally_block_log by blast
    ultimately show ?thesis using e2 by simp
  qed
qed

subsection \<open>The request\<close>

text \<open>
  C7. After the upload of a (non-empty) image into the initial session, with the prompt
  still blank, the submission calls \<open>generateVideos\<close> with the text
  \<open>Animate this character: Natural movement in high quality commercial lighting\<close> and the
  aspect ratio \<open>9:16\<close>; and the log of every such run that returns starts with the
  submission of that request.
\<close>

theorem blank_prompt_request:
  assumes "img \<noteq> []" and "newGoogleGenAI env = None"
    and "s = handleImageUpload (Some (Some img)) (initial_session\<lparr>hasApiKey := True\<rparr>)"
    and "req = \<lparr>req_model = ''veo-3.1-fast-generate-preview'',
                req_prompt = ''Animate this character: Natural movement in high quality commercial lighting'',
                req_imageBytes = at_index (js_split CHR '','' img) 1,
                req_mimeType = at_index (js_split CHR '':'' (hd (js_split CHR '';'' img))) 1,
                req_numberOfVideos = 1, req_resolution = ''720p'', req_aspectRatio = ''9:16''\<rparr>"
  shows "submit env s img (begin_run (s, [])) =
           (generateVideos env req,
            (s\<lparr>isGenerating := True, loadingStep := ''Uploading reference frame to Veo...''\<rparr>,
             [Set_isGenerating True, Set_error None, Set_loadingStep ''Initializing AI engine...'',
              New_GoogleGenAI (API_KEY env), Set_loadingStep ''Uploading reference frame to Veo...'',
              Call_generateVideos req])) \<and>
         (\<forall>w'. generateAnimation env (s, []) = Some w' \<longrightarrow>
            (\<exists>effects. snd w' =
               [Set_isGenerating True, Set_error None, Set_loadingStep ''Initializing AI engine...'',
                New_GoogleGenAI (API_KEY env), Set_loadingStep ''Uploading reference frame to Veo...'',
                Call_generateVideos req] @ effects))"
proof -
  have req: "build_request s img = req"
    by (simp add: assms build_request_def handleImageUpload_def initial_session_def or_else_def)
  have sub: "submit env s img (begin_run (s, [])) =
           (generateVideos env req,
            (s\<lparr>isGenerating := True, loadingStep := ''Uploading reference frame to Veo...''\<rparr>,
             [Set_isGenerating True, Set_error None, Set_loadingStep ''Initializing AI engine...'',
              New_GoogleGenAI (API_KEY env), Set_loadingStep ''Uploading reference frame to Veo...'',
              Call_generateVideos req]))"
    by (simp add: submit_def req assms(2) begin_run_def setLoadingStep_def setError_def
        setIsGenerating_def emit_def Let_def)
      (simp add: assms(3) handleImageUpload_def initial_session_def)
  have "\<exists>effects. snd w' =
               [Set_isGenerating True, Set_error None, Set_loadingStep ''Initializing AI engine...'',
                New_GoogleGenAI (API_KEY env), Set_loadingStep ''Uploading reference frame to Veo...'',
                Call_generateVideos req] @ effects"
    if "generateAnimation env (s, []) = Some w'" for w'
  proof -
    have "selectedImage (fst (s, [])) = Some img"
      by (simp add: assms(3) handleImageUpload_def)
    from run_log [OF this assms(1) that] show ?thesis
      by (simp add: sub)
  qed
  with sub show ?thesis by blast
qed

lemma demo_run:
  "generateAnimation demo_env (demo_session, []) =
     Some (demo_session\<lparr>generatedVideoUrl := Some ''blob:1''\<rparr>,
       [Set_isGenerating True, Set_error None, Set_loadingStep ''Initializing AI engine...'',
        New_GoogleGenAI (Some ''K''), Set_loadingStep ''Uploading reference frame to Veo...'',
        Call_generateVideos (build_request demo_session demo_image),
        Set_loadingStep ''Analyzing avatar features...'', Set_timeout 10000,
        Call_getVideosOperation pending_operation,
        Set_loadingStep ''Simulating physics and movement...'', Set_timeout 10000,
        Call_getVideosOperation pending_operation,
        Set_loadingStep ''Rendering commercial lighting...'', Set_timeout 10000,
        Call_getVideosOperation pending_operation,
        Set_loadingStep ''Downloading final commercial asset...'',
        Call_fetch ''https://v/1?alt=media&key=K'', Call_blob,
        Call_createObjectURL (Blob ''mp4''), Set_generatedVideoUrl ''blob:1'',
        Set_isGenerating False, Set_loadingStep []])"
  by (simp add: generateAnimation_def try_body_def submit_def completion_def begin_run_def
      finally_block_def poll_loop.simps truthy_def result_uri_def at_index_def template_str_def
      setLoadingStep_def setIsGenerating_def setError_def setGeneratedVideoUrl_def emit_def
      demo_session_def demo_env_def initial_session_def demo_image_def pending_operation_def
      done_operation_def loadingMessages_def Let_def)

theorem blank_prompt_request_witness:
  "submit demo_env demo_session demo_image (begin_run (demo_session, [])) =
     (Inr pending_operation,
      (demo_session\<lparr>isGenerating := True, loadingStep := ''Uploading reference frame to Veo...''\<rparr>,
       [Set_isGenerating True, Set_error None, Set_loadingStep ''Initializing AI engine...'',
        New_GoogleGenAI (Some ''K''), Set_loadingStep ''Uploading reference frame to Veo...'',
        Call_generateVideos
          \<lparr>req_model = ''veo-3.1-fast-generate-preview'',
           req_prompt = ''Animate this character: Natural movement in high quality commercial lighting'',
           req_imageBytes = Some ''AAAA'', req_mimeType = Some ''image/png'',
           req_numberOfVideos = 1, req_resolution = ''720p'', req_aspectRatio = ''9:16''\<rparr>])) \<and>
   (\<exists>w' effects. generateAnimation demo_env (demo_session, []) = Some w' \<and> snd w' =
       [Set_isGenerating True, Set_error None, Set_loadingStep ''Initializing AI engine...'',
        New_GoogleGenAI (Some ''K''), Set_loadingStep ''Uploading reference frame to Veo...'',
        Call_generateVideos
          \<lparr>req_model = ''veo-3.1-fast-generate-preview'',
           req_prompt = ''Animate this character: Natural movement in high quality commercial lighting'',
           req_imageBytes = Some ''AAAA'', req_mimeType = Some ''image/png'',
           req_numberOfVideos = 1, req_resolution = ''720p'', req_aspectRatio = ''9:16''\<rparr>] @ effects)"
proof -
  have split1: "at_index (js_split CHR '','' demo_image) (Suc 0) = Some ''AAAA''"
    by (simp add: demo_image_def at_index_def)
  have split2: "at_index (js_split CHR '':'' (hd (js_split CHR '';'' demo_image))) (Suc 0) = Some ''image/png''"
    by (simp add: demo_image_def at_index_def)
  have s: "demo_session = handleImageUpload (Some (Some demo_image)) (initial_session\<lparr>hasApiKey := True\<rparr>)"
    by (simp add: demo_session_def handleImageUpload_def)
  have "demo_image \<noteq> []" by (simp add: demo_image_def)
  moreover have "newGoogleGenAI demo_env = None" by (simp add: demo_env_def)
  ultimately show ?thesis
    using blank_prompt_request [of demo_image demo_env demo_session, OF _ _ s refl] demo_run
    by (simp add: split1 split2 demo_env_def)
qed

lemma blank_run:
  "generateAnimation demo_env (blank_session, []) =
     Some (blank_session\<lparr>generatedVideoUrl := Some ''blob:1''\<rparr>,
       [Set_isGenerating True, Set_error None, Set_loadingStep ''Initializing AI engine...'',
        New_GoogleGenAI (Some ''K''), Set_loadingStep ''Uploading reference frame to Veo...'',
        Call_generateVideos (build_request blank_session demo_image),
        Set_loadingStep ''Analyzing avatar features...'', Set_timeout 10000,
        Call_getVideosOperation pending_operation,
        Set_loadingStep ''Simulating physics and movement...'', Set_timeout 10000,
        Call_getVideosOperation pending_operation,
        Set_loadingStep ''Rendering commercial lighting...'', Set_timeout 10000,
        Call_getVideosOperation pending_operation,
        Set_loadingStep ''Downloading final commercial asset...'',
        Call_fetch ''https://v/1?alt=media&key=K'', Call_blob,
        Call_createObjectURL (Blob ''mp4''), Set_generatedVideoUrl ''blob:1'',
        Set_isGenerating False, Set_loadingStep []])"
  by (simp add: generateAnimation_def try_body_def submit_def completion_def begin_run_def
      finally_block_def poll_loop.simps truthy_def result_uri_def at_index_def template_str_def
      setLoadingStep_def setIsGenerating_def setError_def setGeneratedVideoUrl_def emit_def
      blank_session_def demo_session_def demo_env_def initial_session_def demo_image_def
      pending_operation_def done_operation_def loadingMessages_def Let_def)

text \<open>
  C10. The text of the request is the fixed template followed by the default phrase
  when the prompt is the empty string, and the template followed by the prompt itself,
  character for character, in every other case (a prompt of spaces included). This is the
  request the submission passes to \<open>generateVideos\<close>, and the log of every run that
  returns starts with it.
\<close>

theorem prompt_sent_verbatim:
  assumes img: "selectedImage (fst w) = Some img" "img \<noteq> []"
    and client: "newGoogleGenAI env = None"
    and req: "req = build_request (fst w) img"
  shows "req_prompt req =
           (if prompt (fst w) = []
            then ''Animate this character: Natural movement in high quality commercial lighting''
            else ''Animate this character: '' @ prompt (fst w)) \<and>
         fst (submit env (fst w) img (begin_run w)) = generateVideos env req \<and>
         snd (snd (submit env (fst w) img (begin_run w))) =
           snd w @
           [Set_isGenerating True, Set_error None, Set_loadingStep ''Initializing AI engine...'',
            New_GoogleGenAI (API_KEY env), Set_loadingStep ''Uploading reference frame to Veo...'',
            Call_generateVideos req] \<and>
         (\<forall>w'. generateAnimation env w = Some w' \<longrightarrow>
            (\<exists>effects. snd w' =
               snd w @
               [Set_isGenerating True, Set_error None, Set_loadingStep ''Initializing AI engine...'',
                New_GoogleGenAI (API_KEY env), Set_loadingStep ''Uploading reference frame to Veo...'',
                Call_generateVideos req] @ effects))"
proof -
  have phrase: "req_prompt req =
           (if prompt (fst w) = []
            then ''Animate this character: Natural movement in high quality commercial lighting''
            else ''Animate this character: '' @ prompt (fst w))"
    by (simp add: req build_request_def or_else_def)
  have call: "fst (submit env (fst w) img (begin_run w)) = generateVideos env req"
    by (simp add: submit_def client req Let_def)
  have log: "snd (snd (submit env (fst w) img (begin_run w))) =
           snd w @
           [Set_isGenerating True, Set_error None, Set_loadingStep ''Initializing AI engine...'',
            New_GoogleGenAI (API_KEY env), Set_loadingStep ''Uploading reference frame to Veo...'',
            Call_generateVideos req]"
    by (simp add: submit_def client req begin_run_def setLoadingStep_def setError_def
        setIsGenerating_def emit_def Let_def)
  have "\<exists>effects. snd w' =
               snd w @
               [Set_isGenerating True, Set_error None, Set_loadingStep ''Initializing AI engine...'',
                New_GoogleGenAI (API_KEY env), Set_loadingStep ''Uploading reference frame to Veo...'',
                Call_generateVideos req] @ effects"
    if "generateAnimation env w = Some w'" for w'
    using run_log [OF img that] by (simp add: log)
  with phrase call log show ?thesis by blast
qed

theorem prompt_sent_verbatim_witness:
  "req_prompt (build_request blank_session demo_image) = ''Animate this character:    '' \<and>
   fst (submit demo_env blank_session demo_image (begin_run (blank_session, []))) =
     Inr pending_operation \<and>
   snd (snd (submit demo_env blank_session demo_image (begin_run (blank_session, [])))) =
     [Set_isGenerating True, Set_error None, Set_loadingStep ''Initializing AI engine...'',
      New_GoogleGenAI (Some ''K''), Set_loadingStep ''Uploading reference frame to Veo...'',
      Call_generateVideos (build_request blank_session demo_image)] \<and>
   (\<exists>w' effects. generateAnimation demo_env (blank_session, []) = Some w' \<and>
      snd w' =
        [Set_isGenerating True, Set_error None, Set_loadingStep ''Initializing AI engine...'',
         New_GoogleGenAI (Some ''K''), Set_loadingStep ''Uploading reference frame to Veo...'',
         Call_generateVideos (build_request blank_session demo_image)] @ effects)"
proof -
  have "selectedImage (fst (blank_session, [])) = Some demo_image"
    by (simp add: blank_session_def demo_session_def)
  moreover have "demo_image \<noteq> []" by (simp add: demo_image_def)
  moreover have "newGoogleGenAI demo_env = None" by (simp add: demo_env_def)
  moreover have "prompt blank_session = ''   ''"
    by (simp add: blank_session_def)
  ultimately show ?thesis
    using prompt_sent_verbatim [of "(blank_session, [])" demo_image demo_env
        "build_request blank_session demo_image"] blank_run
    by (simp add: demo_env_def)
qed

subsection \<open>The credential check\<close>

text \<open>
  C8. When the host's credential query rejects, \<open>checkApiKey\<close> logs the failure and
  changes nothing of the state; it returns normally (it has no error result). Run on
  mount, it leaves the credential flag \<open>False\<close>, and the component renders the gate
  screen.
\<close>

theorem credential_check_failure:
  assumes "hasSelectedApiKey env = Inl e"
  shows "checkApiKey env w = (fst w, snd w @ [Console_error (Some ''API key check failed'') e]) \<and>
         on_mount env = (initial_session, [Console_error (Some ''API key check failed'') e]) \<and>
         hasApiKey (fst (on_mount env)) = False \<and>
         render_screen (fst (on_mount env)) = Gate_screen"
  using assms
  by (simp add: checkApiKey_def on_mount_def emit_def render_screen_def initial_session_def)

theorem credential_check_failure_witness:
  "on_mount broken_host_env =
     (initial_session,
      [Console_error (Some ''API key check failed'') (Error (Some ''aistudio is unavailable''))]) \<and>
   render_screen (fst (on_mount broken_host_env)) = Gate_screen"
  using credential_check_failure [of broken_host_env "Error (Some ''aistudio is unavailable'')"]
  by (simp add: broken_host_env_def demo_env_def render_screen_def initial_session_def)

subsection \<open>The error message and the result asset\<close>









subsection \<open>Result asset and error message together\<close>




subsection \<open>Runs that never return\<close>

text \<open>
  A run whose operation is never reported done, and whose polls are never rejected,
  does not return: the job stays outstanding.
\<close>

lemma stalled_run_never_returns:
  assumes img: "selectedImage (fst w) = Some img" "img \<noteq> []"
    and client: "newGoogleGenAI env = None"
    and submitted: "generateVideos env (build_request (fst w) img) = Inr operation"
    and pending: "\<not> op_done operation" "\<forall>k. \<not> settled (getVideosOperation env k)"
  shows "generateAnimation env w = None"
proof -
  define w3 where "w3 = snd (submit env (fst w) img (begin_run w))"
  have sub: "submit env (fst w) img (begin_run w) = (Inr operation, w3)"
    by (simp add: w3_def submit_def client submitted Let_def)
  have "poll_loop env 0 operation w3 = None"
  proof (rule ccontr)
    assume "poll_loop env 0 operation w3 \<noteq> None"
    then obtain y where "poll_loop env 0 operation w3 = Some y" by blast
    then have "op_done operation \<or> (\<exists>k. settled (getVideosOperation env (0 + k)))"
      by (rule poll_loop_settled_if_returns)
    with pending show False by simp
  qed
  then show ?thesis
    by (simp add: generateAnimation_def img truthy_def try_body_def sub)
qed

subsection \<open>One submission for each invocation\<close>
















end
